theory Spec2Isabelle
  imports Complex_Main
begin

section \<open>NumPy floating-point values\<close>

text \<open>
  The notebooks compute with Python floats and NumPy float64 values. A float is either a
  finite number or one of \<open>inf\<close>, \<open>-inf\<close>, \<open>nan\<close>. Finite floats are modelled by the real
  numbers they stand for: rounding and overflow are not modelled, so every statement below
  is about the exact value of the expression the code evaluates. What is modelled is where
  the code leaves the finite numbers: NumPy divides by zero and takes square roots of
  negative numbers without raising (it yields \<open>inf\<close> or \<open>nan\<close> and a RuntimeWarning), while
  a Python-level division by zero raises \<open>ZeroDivisionError\<close>. Zero has no sign in the model;
  a zero divisor is \<open>+0.0\<close>, which is what \<open>np.sqrt\<close> returns for a zero argument.
\<close>

datatype np_float = Finite real | PosInf | NegInf | NaN

datatype py_error = ZeroDivisionError | ValueError

fun np_neg :: "np_float \<Rightarrow> np_float" where
  "np_neg (Finite x) = Finite (- x)"
| "np_neg PosInf = NegInf"
| "np_neg NegInf = PosInf"
| "np_neg NaN = NaN"

fun np_add :: "np_float \<Rightarrow> np_float \<Rightarrow> np_float" where
  "np_add NaN _ = NaN"
| "np_add _ NaN = NaN"
| "np_add (Finite x) (Finite y) = Finite (x + y)"
| "np_add PosInf NegInf = NaN"
| "np_add NegInf PosInf = NaN"
| "np_add PosInf _ = PosInf"
| "np_add _ PosInf = PosInf"
| "np_add NegInf _ = NegInf"
| "np_add _ NegInf = NegInf"

definition np_sub :: "np_float \<Rightarrow> np_float \<Rightarrow> np_float" where
  "np_sub a b = np_add a (np_neg b)"

fun np_mul :: "np_float \<Rightarrow> np_float \<Rightarrow> np_float" where
  "np_mul NaN _ = NaN"
| "np_mul _ NaN = NaN"
| "np_mul (Finite x) (Finite y) = Finite (x * y)"
| "np_mul PosInf (Finite y) = (if y = 0 then NaN else if 0 < y then PosInf else NegInf)"
| "np_mul NegInf (Finite y) = (if y = 0 then NaN else if 0 < y then NegInf else PosInf)"
| "np_mul (Finite x) PosInf = (if x = 0 then NaN else if 0 < x then PosInf else NegInf)"
| "np_mul (Finite x) NegInf = (if x = 0 then NaN else if 0 < x then NegInf else PosInf)"
| "np_mul PosInf PosInf = PosInf"
| "np_mul NegInf NegInf = PosInf"
| "np_mul PosInf NegInf = NegInf"
| "np_mul NegInf PosInf = NegInf"

fun np_div :: "np_float \<Rightarrow> np_float \<Rightarrow> np_float" where
  "np_div NaN _ = NaN"
| "np_div _ NaN = NaN"
| "np_div (Finite x) (Finite y) =
     (if y \<noteq> 0 then Finite (x / y)
      else if x = 0 then NaN else if 0 < x then PosInf else NegInf)"
| "np_div (Finite x) _ = Finite 0"
| "np_div PosInf (Finite y) = (if 0 \<le> y then PosInf else NegInf)"
| "np_div NegInf (Finite y) = (if 0 \<le> y then NegInf else PosInf)"
| "np_div _ _ = NaN"

fun np_sqrt :: "np_float \<Rightarrow> np_float" where
  "np_sqrt (Finite x) = (if x < 0 then NaN else Finite (sqrt x))"
| "np_sqrt PosInf = PosInf"
| "np_sqrt NegInf = NaN"
| "np_sqrt NaN = NaN"

fun np_abs :: "np_float \<Rightarrow> np_float" where
  "np_abs (Finite x) = Finite \<bar>x\<bar>"
| "np_abs PosInf = PosInf"
| "np_abs NegInf = PosInf"
| "np_abs NaN = NaN"

text \<open>The comparison \<open>a < b\<close> of two floats: false as soon as one of them is \<open>nan\<close>.\<close>

fun np_less :: "np_float \<Rightarrow> np_float \<Rightarrow> bool" where
  "np_less NaN _ = False"
| "np_less _ NaN = False"
| "np_less (Finite x) (Finite y) = (x < y)"
| "np_less _ NegInf = False"
| "np_less NegInf _ = True"
| "np_less PosInf _ = False"
| "np_less _ PosInf = True"

section \<open>The standard normal distribution of SciPy\<close>

text \<open>
  \<open>scipy.stats.norm.cdf\<close> and \<open>scipy.stats.norm.ppf\<close> are library functions, not code of the
  repository. They are modelled by the functions they compute: the cumulative distribution
  function of the standard normal distribution and its inverse. The distribution function is
  \<open>1/2 + (1 / sqrt (2 pi)) * integral from 0 to x of exp (- t^2 / 2)\<close>; the integral is given
  by its Maclaurin series, whose term of index \<open>k\<close> is \<open>(-1)^k * cdf_term x k\<close>. Lemmas
  \<open>DERIV_norm_cdf\<close> and \<open>norm_cdf_zero\<close> below pin the function down: its derivative is the
  normal density and its value at \<open>0\<close> is \<open>1/2\<close>. An infinite series does not evaluate; the
  values the scenarios need come from rational bounds on partial sums (\<open>norm_cdf_lower\<close>,
  \<open>norm_cdf_upper\<close>) and from bounds on \<open>pi\<close>.
\<close>

definition cdf_term :: "real \<Rightarrow> nat \<Rightarrow> real" where
  "cdf_term x k = x ^ (2 * k + 1) / (2 ^ k * fact k * real (2 * k + 1))"

definition cdf_coeff :: "nat \<Rightarrow> real" where
  "cdf_coeff n = (if even n then 0
     else (- 1) ^ (n div 2) / (2 ^ (n div 2) * fact (n div 2) * real n))"

definition gauss_area :: "real \<Rightarrow> real" where
  "gauss_area x = (\<Sum>n. cdf_coeff n * x ^ n)"

definition norm_cdf :: "real \<Rightarrow> real" where
  "norm_cdf x = 1 / 2 + gauss_area x / sqrt (2 * pi)"

text \<open>The quantile of level \<open>q\<close>: the point where the distribution function takes the value \<open>q\<close>.\<close>

definition norm_quantile :: "real \<Rightarrow> real" where
  "norm_quantile q = (THE x. norm_cdf x = q)"

text \<open>\<open>stats.norm.cdf\<close> on a float: \<open>cdf(inf) = 1\<close>, \<open>cdf(-inf) = 0\<close>, \<open>cdf(nan) = nan\<close>.\<close>

fun norm_cdf_f :: "np_float \<Rightarrow> np_float" where
  "norm_cdf_f (Finite x) = Finite (norm_cdf x)"
| "norm_cdf_f PosInf = Finite 1"
| "norm_cdf_f NegInf = Finite 0"
| "norm_cdf_f NaN = NaN"

text \<open>\<open>stats.norm.ppf\<close>: \<open>nan\<close> outside \<open>[0, 1]\<close>, \<open>-inf\<close> at \<open>0\<close>, \<open>inf\<close> at \<open>1\<close>.\<close>

definition norm_ppf :: "real \<Rightarrow> np_float" where
  "norm_ppf q = (if q < 0 \<or> 1 < q then NaN
     else if q = 0 then NegInf else if q = 1 then PosInf
     else Finite (norm_quantile q))"

text \<open>
  An evaluator for the partial sums of the series, in Horner form:
  \<open>x * cdf_horner (x^2) 0 n\<close> is the sum of the first \<open>n\<close> terms.
\<close>

fun cdf_horner :: "real \<Rightarrow> nat \<Rightarrow> nat \<Rightarrow> real" where
  "cdf_horner y k 0 = 0"
| "cdf_horner y k (Suc n) =
     1 / real (2 * k + 1) - y / real (2 * (k + 1)) * cdf_horner y (Suc k) n"

section \<open>Descriptive statistics of NumPy\<close>

text \<open>
  \<open>np.mean\<close>, \<open>np.var\<close> (with its \<open>ddof\<close> argument, default \<open>0\<close>) and the off-diagonal entry
  of \<open>np.cov\<close> (normalised by \<open>n - 1\<close>) on arrays of finite floats. On an empty array the
  mean is \<open>0/0 = nan\<close>; \<open>np.var\<close> divides by \<open>max (n - ddof) 0\<close>; \<open>np.cov\<close> raises
  \<open>ValueError\<close> when the two arrays differ in length and multiplies the sum of products by
  \<open>1 / max (n - 1) 0\<close>.
\<close>

definition np_mean :: "real list \<Rightarrow> np_float" where
  "np_mean xs = np_div (Finite (sum_list xs)) (Finite (real (length xs)))"

definition np_var :: "nat \<Rightarrow> real list \<Rightarrow> np_float" where
  "np_var ddof xs =
     (case np_mean xs of
        Finite m \<Rightarrow> np_div (Finite (\<Sum>x\<leftarrow>xs. (x - m)\<^sup>2))
                      (Finite (max (real (length xs) - real ddof) 0))
      | _ \<Rightarrow> NaN)"

definition np_cov :: "real list \<Rightarrow> real list \<Rightarrow> py_error + np_float" where
  "np_cov X Y =
     (if length X \<noteq> length Y then Inl ValueError
      else case (np_mean X, np_mean Y) of
        (Finite mx, Finite my) \<Rightarrow>
          Inr (np_mul (Finite (\<Sum>(x, y)\<leftarrow>zip X Y. (x - mx) * (y - my)))
                 (np_div (Finite 1) (Finite (max (real (length X) - 1) 0))))
      | _ \<Rightarrow> Inr NaN)"

section \<open>The two-proportion Z-test (A/B testing cell)\<close>

text \<open>
  The cell of the hypothesis-testing notebook that the spec calls \<open>twoProportionZTest\<close>. Its
  inputs are the variables the cell assigns first: \<open>conv_A\<close>, \<open>n_A\<close>, \<open>conv_B\<close>, \<open>n_B\<close>
  (Python ints) and \<open>alpha\<close>. \<open>conv_A / n_A\<close> is a Python division and raises
  \<open>ZeroDivisionError\<close> for \<open>n_A = 0\<close>; everything after it is float arithmetic.
\<close>

datatype test_decision = REJECT_NULL | FAIL_TO_REJECT

record ztest_result =
  p_A :: real
  p_B :: real
  z_score :: np_float
  p_value :: np_float
  decision :: test_decision

text \<open>\<open>se_A = np.sqrt((p_A * (1 - p_A)) / n_A)\<close>, for a non-zero \<open>n_A\<close>.\<close>

definition se :: "real \<Rightarrow> int \<Rightarrow> np_float" where
  "se p n = np_sqrt (Finite ((p * (1 - p)) / real_of_int n))"

text \<open>\<open>se_diff = np.sqrt(se_A**2 + se_B**2)\<close>.\<close>

definition se_diff :: "np_float \<Rightarrow> np_float \<Rightarrow> np_float" where
  "se_diff seA seB = np_sqrt (np_add (np_mul seA seA) (np_mul seB seB))"

text \<open>\<open>if p_value < alpha: "Reject H0" else: "Fail to reject H0"\<close>.\<close>

definition decide :: "np_float \<Rightarrow> real \<Rightarrow> test_decision" where
  "decide p alpha = (if np_less p (Finite alpha) then REJECT_NULL else FAIL_TO_REJECT)"

definition twoProportionZTest ::
  "int \<Rightarrow> int \<Rightarrow> int \<Rightarrow> int \<Rightarrow> real \<Rightarrow> py_error + ztest_result" where
  "twoProportionZTest conv_A n_A conv_B n_B alpha =
     (if n_A = 0 \<or> n_B = 0 then Inl ZeroDivisionError
      else
        let pA = real_of_int conv_A / real_of_int n_A;
            pB = real_of_int conv_B / real_of_int n_B;
            z = np_div (Finite (pB - pA)) (se_diff (se pA n_A) (se pB n_B));
            p = np_mul (Finite 2) (np_sub (Finite 1) (norm_cdf_f (np_abs z)))
        in Inr \<lparr>p_A = pA, p_B = pB, z_score = z, p_value = p, decision = decide p alpha\<rparr>)"

section \<open>Minimum detectable effect\<close>

text \<open>
  The cell the spec calls \<open>minimumDetectableEffect\<close>, with the variables \<open>n\<close>, \<open>alpha\<close> and
  \<open>power\<close> as inputs; the baseline proportion \<open>0.5\<close> is a literal of the code.
  \<open>(0.5 * (1 - 0.5)) / n\<close> is a Python division and raises for \<open>n = 0\<close>.
\<close>

definition minimumDetectableEffect :: "int \<Rightarrow> real \<Rightarrow> real \<Rightarrow> py_error + np_float" where
  "minimumDetectableEffect n alpha pwr =
     (if n = 0 then Inl ZeroDivisionError
      else
        let z_alpha = norm_ppf (1 - alpha / 2);
            z_power = norm_ppf pwr;
            se_n = np_sqrt (Finite ((0.5 * (1 - 0.5)) / real_of_int n))
        in Inr (np_mul (np_mul (np_add z_alpha z_power) se_n) (np_sqrt (Finite 2))))"

section \<open>CUPED\<close>

text \<open>
  \<open>theta = np.cov(X, Y)[0, 1] / np.var(X)\<close> and \<open>Y_adj = Y - theta * (X - np.mean(X))\<close>:
  \<open>X\<close> is the covariate and \<open>Y\<close> the outcome. The spec's \<open>cupedAdjust(outcome, covariate)\<close>
  takes the outcome first.
\<close>

definition theta :: "real list \<Rightarrow> real list \<Rightarrow> py_error + np_float" where
  "theta X Y = (case np_cov X Y of Inl e \<Rightarrow> Inl e | Inr c \<Rightarrow> Inr (np_div c (np_var 0 X)))"

definition cupedAdjust :: "real list \<Rightarrow> real list \<Rightarrow> py_error + np_float list" where
  "cupedAdjust Y X =
     (case theta X Y of
        Inl e \<Rightarrow> Inl e
      | Inr th \<Rightarrow>
          Inr (map2 (\<lambda>y x. np_sub (Finite y) (np_mul th (np_sub (Finite x) (np_mean X)))) Y X))"

text \<open>
  The quantities the claims speak of: the arithmetic mean, and the covariance and variance
  with denominator \<open>n\<close> (population) of samples of real numbers.
\<close>

definition mean :: "real list \<Rightarrow> real" where
  "mean xs = sum_list xs / real (length xs)"

definition population_covariance :: "real list \<Rightarrow> real list \<Rightarrow> real" where
  "population_covariance X Y =
     (\<Sum>(x, y)\<leftarrow>zip X Y. (x - mean X) * (y - mean Y)) / real (length X)"

definition population_variance :: "real list \<Rightarrow> real" where
  "population_variance X = (\<Sum>x\<leftarrow>X. (x - mean X)\<^sup>2) / real (length X)"

text \<open>The sample variance (denominator \<open>n - 1\<close>), the spec's \<open>sampleVariance\<close>.\<close>

definition sample_variance :: "real list \<Rightarrow> real" where
  "sample_variance xs = (\<Sum>x\<leftarrow>xs. (x - mean xs)\<^sup>2) / (real (length xs) - 1)"

section \<open>Confidence intervals\<close>

text \<open>
  The Z interval of the confidence-interval notebook (the spec's
  \<open>meanIntervalKnownVariance\<close>): inputs are the sample \<open>data\<close> and \<open>sigma\<close>; the level
  \<open>0.975\<close> is a literal of the code.
\<close>

definition meanIntervalKnownVariance :: "real list \<Rightarrow> real \<Rightarrow> np_float \<times> np_float" where
  "meanIntervalKnownVariance data sigma =
     (let mean_sample = np_mean data;
          n = length data;
          z = norm_ppf 0.975;
          margin_of_error = np_mul z (np_div (Finite sigma) (np_sqrt (Finite (real n))))
      in (np_sub mean_sample margin_of_error, np_add mean_sample margin_of_error))"

text \<open>
  The interval for the difference of two means (the spec's \<open>twoMeanDifferenceInterval\<close>).
  The samples are the inputs; the cell draws both with size \<open>100\<close>, and the sizes \<open>100\<close>, the
  level \<open>0.975\<close> and the degrees of freedom \<open>198\<close> are literals of the code.
  \<open>scipy.stats.t.ppf\<close> is not modelled: it is the parameter \<open>t_ppf\<close>, a function of the level
  and the degrees of freedom.
\<close>

definition twoMeanDifferenceInterval ::
  "(real \<Rightarrow> real \<Rightarrow> real) \<Rightarrow> real list \<Rightarrow> real list \<Rightarrow> np_float \<times> np_float" where
  "twoMeanDifferenceInterval t_ppf sample1 sample2 =
     (let mean_diff = np_sub (np_mean sample1) (np_mean sample2);
          std_error = np_sqrt (np_add (np_div (np_var 1 sample1) (Finite 100))
                                      (np_div (np_var 1 sample2) (Finite 100)));
          t_critical = Finite (t_ppf 0.975 198);
          margin_of_error = np_mul t_critical std_error
      in (np_sub mean_diff margin_of_error, np_add mean_diff margin_of_error))"

text \<open>
  The Welch-Satterthwaite degrees of freedom for sample variances \<open>v1\<close>, \<open>v2\<close> and sizes
  \<open>n1\<close>, \<open>n2\<close>, for comparison with the degrees of freedom the code uses.
\<close>

definition welch_satterthwaite_df :: "real \<Rightarrow> real \<Rightarrow> real \<Rightarrow> real \<Rightarrow> real" where
  "welch_satterthwaite_df v1 n1 v2 n2 =
     (v1 / n1 + v2 / n2)\<^sup>2 / ((v1 / n1)\<^sup>2 / (n1 - 1) + (v2 / n2)\<^sup>2 / (n2 - 1))"

section \<open>Chi-square statistic\<close>

text \<open>
  Modelled from the spec: the two error kinds of the spec's error taxonomy that
  \<open>chiSquareTest\<close> can fail with. The repository has no code for the chi-square test.
\<close>

datatype spec_error = DimensionMismatchError | DivisionByZeroError

text \<open>
  Modelled from the spec: \<open>chiSquareTest(observed, expected, alpha)\<close>. The repository has no
  code for it (its README gives the formula of the statistic only). The spec: the statistic
  is the sum of \<open>(O - E)^2 / E\<close> over paired sequences of equal length; the operation fails
  with \<open>DimensionMismatchError\<close> if the lengths differ and with \<open>DivisionByZeroError\<close> if any
  expected entry is \<open>0\<close>. The spec says nothing of how \<open>alpha\<close> enters the result.
\<close>

definition chiSquareTest :: "real list \<Rightarrow> real list \<Rightarrow> real \<Rightarrow> spec_error + real" where
  "chiSquareTest observed expected alpha =
     (if length observed \<noteq> length expected then Inl DimensionMismatchError
      else if 0 \<in> set expected then Inl DivisionByZeroError
      else Inr (\<Sum>(ob, ex)\<leftarrow>zip observed expected. (ob - ex)\<^sup>2 / ex))"

section \<open>Properties of the normal distribution function\<close>

subsection \<open>The series converges, and its sum has the normal density as derivative\<close>

lemma cdf_term_abs_le: "\<bar>cdf_term y k\<bar> \<le> \<bar>y\<bar> * ((y\<^sup>2 / 2) ^ k /\<^sub>R fact k)"
proof -
  have "y ^ (2 * k + 1) = y * (y\<^sup>2) ^ k"
    by (simp add: power_mult)
  then have pw: "\<bar>y ^ (2 * k + 1)\<bar> = \<bar>y\<bar> * (y\<^sup>2) ^ k"
    by (simp only: abs_mult abs_of_nonneg[OF zero_le_power[OF zero_le_power2]])
  have den: "(2::real) ^ k * fact k \<le> 2 ^ k * fact k * real (2 * k + 1)"
    using mult_left_mono[of 1 "real (2 * k + 1)" "2 ^ k * fact k"] by simp
  have "\<bar>cdf_term y k\<bar> = (\<bar>y\<bar> * (y\<^sup>2) ^ k) / (2 ^ k * fact k * real (2 * k + 1))"
    unfolding cdf_term_def abs_divide pw by simp
  also have "\<dots> \<le> (\<bar>y\<bar> * (y\<^sup>2) ^ k) / (2 ^ k * fact k)"
    by (rule divide_left_mono[OF den]) (simp_all)
  also have "\<dots> = \<bar>y\<bar> * ((y\<^sup>2 / 2) ^ k /\<^sub>R fact k)"
    by (simp add: power_divide field_simps)
  finally show ?thesis .
qed

lemma summable_cdf_term: "summable (\<lambda>k. (- 1) ^ k * cdf_term y k)"
proof (rule summable_comparison_test)
  show "\<exists>N. \<forall>k\<ge>N. norm ((- 1) ^ k * cdf_term y k) \<le> \<bar>y\<bar> * ((y\<^sup>2 / 2) ^ k /\<^sub>R fact k)"
    using cdf_term_abs_le[of y] by (simp add: abs_mult power_abs)
  show "summable (\<lambda>k. \<bar>y\<bar> * ((y\<^sup>2 / 2) ^ k /\<^sub>R fact k))"
    by (intro summable_mult summable_exp_generic)
qed

lemma cdf_coeff_odd: "cdf_coeff (2 * k + 1) * y ^ (2 * k + 1) = (- 1) ^ k * cdf_term y k"
  by (simp add: cdf_coeff_def cdf_term_def)

lemma cdf_coeff_series:
  "(\<lambda>n. cdf_coeff n * y ^ n) =
   (\<lambda>n. if even n then 0 else (- 1) ^ ((n - 1) div 2) * cdf_term y ((n - 1) div 2))"
proof
  fix n show "cdf_coeff n * y ^ n =
    (if even n then 0 else (- 1) ^ ((n - 1) div 2) * cdf_term y ((n - 1) div 2))"
  proof (cases "even n")
    case True then show ?thesis by (simp add: cdf_coeff_def)
  next
    case False
    then obtain k where "n = 2 * k + 1" by (auto elim: oddE)
    then show ?thesis using cdf_coeff_odd[of k y] by simp
  qed
qed

lemma cdf_coeff_sums: "(\<lambda>n. cdf_coeff n * y ^ n) sums (\<Sum>k. (- 1) ^ k * cdf_term y k)"
  unfolding cdf_coeff_series
  by (rule sums_if') (rule summable_sums[OF summable_cdf_term])

lemma gauss_area_series: "gauss_area y = (\<Sum>k. (- 1) ^ k * cdf_term y k)"
  unfolding gauss_area_def using cdf_coeff_sums[of y] by (rule sums_unique[symmetric])

lemma diffs_cdf_coeff:
  "diffs cdf_coeff n * x ^ n =
   (if even n then (- (x\<^sup>2) / 2) ^ (n div 2) /\<^sub>R fact (n div 2) else 0)"
proof (cases "even n")
  case False then show ?thesis by (simp add: diffs_def cdf_coeff_def)
next
  case True
  then obtain k where n: "n = 2 * k" by (auto elim: evenE)
  have pw: "(- (x\<^sup>2) / 2) ^ k = (- 1) ^ k * x ^ (2 * k) / 2 ^ k"
    by (simp add: power_minus[of "x\<^sup>2 / 2"] power_divide power_mult)
  have c: "diffs cdf_coeff (2 * k) = (- 1) ^ k / (2 ^ k * fact k)"
    by (simp add: diffs_def cdf_coeff_def)
  have "diffs cdf_coeff (2 * k) * x ^ (2 * k) = (- (x\<^sup>2) / 2) ^ k /\<^sub>R fact k"
    unfolding c pw by (simp add: field_simps)
  then show ?thesis
    by (simp add: n)
qed

lemma DERIV_gauss_area: "(gauss_area has_real_derivative exp (- (x\<^sup>2) / 2)) (at x)"
proof -
  have summ: "summable (\<lambda>n. cdf_coeff n * y ^ n)" for y
    using cdf_coeff_sums[of y] by (rule sums_summable)
  have "(\<lambda>n. if even n then (- (x\<^sup>2) / 2) ^ (n div 2) /\<^sub>R fact (n div 2)
         else (\<lambda>_. 0::real) ((n - 1) div 2)) sums (0 + exp (- (x\<^sup>2) / 2))"
    by (rule sums_if[OF sums_zero exp_converges])
  then have "(\<lambda>n. diffs cdf_coeff n * x ^ n) sums exp (- (x\<^sup>2) / 2)"
    by (simp add: diffs_cdf_coeff)
  then have eq: "(\<Sum>n. diffs cdf_coeff n * x ^ n) = exp (- (x\<^sup>2) / 2)"
    by (rule sums_unique[symmetric])
  have "((\<lambda>x. \<Sum>n. cdf_coeff n * x ^ n) has_field_derivative (\<Sum>n. diffs cdf_coeff n * x ^ n)) (at x)"
    by (rule termdiffs_strong_converges_everywhere) (rule summ)
  then show ?thesis
    unfolding eq gauss_area_def[abs_def] .
qed


lemma DERIV_norm_cdf:
  "(norm_cdf has_real_derivative exp (- (x\<^sup>2) / 2) / sqrt (2 * pi)) (at x)"
proof -
  have "((\<lambda>x. 1 / 2 + gauss_area x / sqrt (2 * pi)) has_real_derivative
      (0 + exp (- (x\<^sup>2) / 2) / sqrt (2 * pi))) (at x)"
    by (intro DERIV_add DERIV_const DERIV_cdivide DERIV_gauss_area)
  then show ?thesis
    by (simp add: norm_cdf_def[abs_def])
qed

lemma norm_cdf_strict_mono: "a < b \<Longrightarrow> norm_cdf a < norm_cdf b"
proof -
  assume "a < b"
  moreover have "\<exists>y. (norm_cdf has_real_derivative y) (at x) \<and> 0 < y" for x
  proof -
    have "0 < exp (- (x\<^sup>2) / 2) / sqrt (2 * pi)" by simp
    then show ?thesis using DERIV_norm_cdf by blast
  qed
  ultimately show ?thesis
    by (rule DERIV_pos_imp_increasing[of a b norm_cdf])
qed

lemma norm_cdf_less_iff: "norm_cdf a < norm_cdf b \<longleftrightarrow> a < b"
  using norm_cdf_strict_mono[of a b] norm_cdf_strict_mono[of b a]
  by (cases a b rule: linorder_cases) auto

lemma norm_cdf_le_iff: "norm_cdf a \<le> norm_cdf b \<longleftrightarrow> a \<le> b"
  using norm_cdf_less_iff[of b a] by (simp add: not_less[symmetric])

lemma norm_cdf_eq_iff: "norm_cdf a = norm_cdf b \<longleftrightarrow> a = b"
  using norm_cdf_le_iff[of a b] norm_cdf_le_iff[of b a] by auto

lemma continuous_on_norm_cdf: "continuous_on A norm_cdf"
  by (intro continuous_at_imp_continuous_on ballI DERIV_isCont[OF DERIV_norm_cdf])

lemma cdf_term_zero: "cdf_term 0 k = 0"
  by (simp add: cdf_term_def)

lemma cdf_term_minus: "cdf_term (- x) k = - cdf_term x k"
  by (simp add: cdf_term_def)

lemma gauss_area_zero: "gauss_area 0 = 0"
  by (simp add: gauss_area_series cdf_term_zero)

lemma gauss_area_minus: "gauss_area (- x) = - gauss_area x"
  unfolding gauss_area_series cdf_term_minus
  using suminf_minus[OF summable_cdf_term[of x]] by simp

lemma norm_cdf_zero: "norm_cdf 0 = 1 / 2"
  by (simp add: norm_cdf_def gauss_area_zero)

lemma norm_cdf_minus: "norm_cdf (- x) = 1 - norm_cdf x"
  by (simp add: norm_cdf_def gauss_area_minus)

lemma cdf_term_nonneg: "0 \<le> x \<Longrightarrow> 0 \<le> cdf_term x k"
  by (simp add: cdf_term_def)

lemma cdf_term_Suc:
  "cdf_term x (Suc k) = cdf_term x k * (x\<^sup>2 * real (2 * k + 1) / (2 * real (k + 1) * real (2 * k + 3)))"
proof -
  have c: "real (2 * k + 1) \<noteq> 0" by simp
  have "cdf_term x (Suc k) =
      (x ^ (2 * k + 1) * x\<^sup>2) / ((2 ^ k * fact k) * (2 * real (k + 1) * real (2 * k + 3)))"
    by (simp add: cdf_term_def power2_eq_square algebra_simps)
  also have "\<dots> = ((x ^ (2 * k + 1) * x\<^sup>2) * real (2 * k + 1)) /
      (((2 ^ k * fact k) * (2 * real (k + 1) * real (2 * k + 3))) * real (2 * k + 1))"
    by (simp only: mult_divide_mult_cancel_right[OF c])
  also have "\<dots> = (x ^ (2 * k + 1) * (x\<^sup>2 * real (2 * k + 1))) /
      ((2 ^ k * fact k * real (2 * k + 1)) * (2 * real (k + 1) * real (2 * k + 3)))"
    by (simp only: mult.assoc mult.left_commute[of "real (2 * k + 1)"] mult.commute[of _ "real (2 * k + 1)"])
  also have "\<dots> = cdf_term x k * (x\<^sup>2 * real (2 * k + 1) / (2 * real (k + 1) * real (2 * k + 3)))"
    by (simp only: cdf_term_def times_divide_times_eq)
  finally show ?thesis .
qed

lemma cdf_term_decreasing:
  assumes "0 \<le> x" and "x\<^sup>2 \<le> 2 * real k + 2"
  shows "cdf_term x (Suc k) \<le> cdf_term x k"
proof -
  have pos: "0 < 2 * real (k + 1) * real (2 * k + 3)" by simp
  have "x\<^sup>2 * real (2 * k + 1) \<le> (2 * real k + 2) * real (2 * k + 3)"
    using assms(2) by (intro mult_mono) simp_all
  also have "\<dots> = 2 * real (k + 1) * real (2 * k + 3)" by simp
  finally have "x\<^sup>2 * real (2 * k + 1) / (2 * real (k + 1) * real (2 * k + 3)) \<le> 1"
    by (simp only: divide_le_eq_1_pos[OF pos])
  then have "cdf_term x k * (x\<^sup>2 * real (2 * k + 1) / (2 * real (k + 1) * real (2 * k + 3)))
      \<le> cdf_term x k * 1"
    by (intro mult_left_mono cdf_term_nonneg assms(1))
  then show ?thesis by (simp add: cdf_term_Suc)
qed

lemma cdf_term_tendsto_zero:
  assumes "0 \<le> x"
  shows "(\<lambda>k. cdf_term x k) \<longlonglongrightarrow> 0"
proof -
  have "(\<lambda>k. (- 1) ^ k * cdf_term x k) \<longlonglongrightarrow> 0"
    by (rule summable_LIMSEQ_zero[OF summable_cdf_term])
  then have "(\<lambda>k. \<bar>(- 1) ^ k * cdf_term x k\<bar>) \<longlonglongrightarrow> 0"
    by (simp add: tendsto_rabs_zero_iff)
  then show ?thesis
    using cdf_term_nonneg[OF assms] by (simp add: abs_mult power_abs)
qed

lemma gauss_area_bounds:
  assumes "0 \<le> x" and "x\<^sup>2 \<le> 4 * real m + 2"
  shows "(\<Sum>k<2 * m. (- 1) ^ k * cdf_term x k) \<le> gauss_area x"
    and "gauss_area x \<le> (\<Sum>k<2 * m + 1. (- 1) ^ k * cdf_term x k)"
proof -
  define b where "b i = cdf_term x (i + 2 * m)" for i
  have lim: "b \<longlonglongrightarrow> 0"
    unfolding b_def[abs_def]
    by (rule LIMSEQ_ignore_initial_segment[OF cdf_term_tendsto_zero[OF assms(1)]])
  have nonneg: "0 \<le> b i" for i
    unfolding b_def by (rule cdf_term_nonneg[OF assms(1)])
  have decr: "b (Suc i) \<le> b i" for i
  proof -
    have "x\<^sup>2 \<le> 2 * real (i + 2 * m) + 2" using assms(2) by simp
    from cdf_term_decreasing[OF assms(1) this] show ?thesis by (simp add: b_def)
  qed
  have lo: "0 \<le> (\<Sum>i. (- 1) ^ i * b i)"
    using summable_Leibniz'(2)[OF lim nonneg decr, of 0] by simp
  have hi: "(\<Sum>i. (- 1) ^ i * b i) \<le> b 0"
    using summable_Leibniz'(4)[OF lim nonneg decr, of 0] by simp
  have shift: "(- 1) ^ (i + 2 * m) * cdf_term x (i + 2 * m) = (- 1) ^ i * b i" for i
    by (simp add: b_def power_add)
  have split: "gauss_area x =
      (\<Sum>i. (- 1) ^ i * b i) + (\<Sum>k<2 * m. (- 1) ^ k * cdf_term x k)"
    unfolding gauss_area_series
    using suminf_split_initial_segment[OF summable_cdf_term[of x], of "2 * m"]
    by (simp add: shift)
  show "(\<Sum>k<2 * m. (- 1) ^ k * cdf_term x k) \<le> gauss_area x"
    using lo split by simp
  show "gauss_area x \<le> (\<Sum>k<2 * m + 1. (- 1) ^ k * cdf_term x k)"
    using hi split by (simp add: b_def)
qed

subsection \<open>Bounds on pi from Machin's formula\<close>

lemma arctan_partial_sums:
  assumes "0 \<le> x" and "x \<le> 1"
  shows "(\<Sum>k<2 * n. (- 1) ^ k * (1 / real (k * 2 + 1) * x ^ (k * 2 + 1))) \<le> arctan x"
    and "arctan x \<le> (\<Sum>k<2 * n + 1. (- 1) ^ k * (1 / real (k * 2 + 1) * x ^ (k * 2 + 1)))"
proof -
  define a where "a k = 1 / real (k * 2 + 1) * x ^ (k * 2 + 1)" for k
  have ax: "\<bar>x\<bar> \<le> 1" using assms by simp
  have lim: "a \<longlonglongrightarrow> 0"
    unfolding a_def[abs_def] by (rule zeroseq_arctan_series[OF ax])
  have nonneg: "0 \<le> a k" for k
    using assms(1) by (simp add: a_def)
  have decr: "a (Suc k) \<le> a k" for k
  proof -
    have "x ^ (Suc k * 2 + 1) \<le> x ^ (k * 2 + 1)"
      using assms by (intro power_decreasing) simp_all
    moreover have "1 / real (Suc k * 2 + 1) \<le> 1 / real (k * 2 + 1)"
      by (intro divide_left_mono) simp_all
    ultimately show ?thesis
      unfolding a_def using assms(1) by (intro mult_mono) simp_all
  qed
  have eq: "arctan x = (\<Sum>k. (- 1) ^ k * a k)"
    unfolding a_def by (rule arctan_series[OF ax])
  show "(\<Sum>k<2 * n. (- 1) ^ k * (1 / real (k * 2 + 1) * x ^ (k * 2 + 1))) \<le> arctan x"
    using summable_Leibniz'(2)[OF lim nonneg decr, of n] by (simp add: eq a_def)
  show "arctan x \<le> (\<Sum>k<2 * n + 1. (- 1) ^ k * (1 / real (k * 2 + 1) * x ^ (k * 2 + 1)))"
    using summable_Leibniz'(4)[OF lim nonneg decr, of n] by (simp add: eq a_def)
qed

lemma pi_lower: "3.141592653 \<le> pi"
proof -
  have "pi = 16 * arctan (1 / 5) - 4 * arctan (1 / 239)"
    using machin by simp
  then show ?thesis
    using arctan_partial_sums(1)[of "1 / 5" 4] arctan_partial_sums(2)[of "1 / 239" 1]
    by (simp add: eval_nat_numeral)
qed

lemma pi_upper: "pi \<le> 3.141592654"
proof -
  have "pi = 16 * arctan (1 / 5) - 4 * arctan (1 / 239)"
    using machin by simp
  then show ?thesis
    using arctan_partial_sums(2)[of "1 / 5" 4] arctan_partial_sums(1)[of "1 / 239" 1]
    by (simp add: eval_nat_numeral)
qed

subsection \<open>Rational bounds on the distribution function\<close>

lemma cdf_horner_shift:
  "(- 1) ^ k * (x ^ (2 * k + 1) / (2 ^ k * fact k)) * cdf_horner (x\<^sup>2) k n =
   (\<Sum>j<n. (- 1) ^ (k + j) * cdf_term x (k + j))"
proof (induction n arbitrary: k)
  case 0
  show ?case by simp
next
  case (Suc n)
  let ?w = "\<lambda>k. (- 1) ^ k * (x ^ (2 * k + 1) / (2 ^ k * fact k))"
  have step: "?w k * (x\<^sup>2 / real (2 * (k + 1))) = - ?w (Suc k)"
    by (simp add: power2_eq_square field_simps)
  have head: "?w k * (1 / real (2 * k + 1)) = (- 1) ^ k * cdf_term x k"
    by (simp add: cdf_term_def)
  have "?w k * cdf_horner (x\<^sup>2) k (Suc n) =
      ?w k * (1 / real (2 * k + 1)) - (?w k * (x\<^sup>2 / real (2 * (k + 1)))) * cdf_horner (x\<^sup>2) (Suc k) n"
    by (simp only: cdf_horner.simps right_diff_distrib mult.assoc)
  also have "\<dots> = (- 1) ^ k * cdf_term x k + ?w (Suc k) * cdf_horner (x\<^sup>2) (Suc k) n"
    unfolding step head by simp
  also have "\<dots> = (- 1) ^ k * cdf_term x k + (\<Sum>j<n. (- 1) ^ (Suc k + j) * cdf_term x (Suc k + j))"
    unfolding Suc.IH ..
  also have "\<dots> = (\<Sum>j<Suc n. (- 1) ^ (k + j) * cdf_term x (k + j))"
    by (simp only: sum.lessThan_Suc_shift add_0_right add_Suc_right add_Suc)
  finally show ?case .
qed

lemma cdf_horner_sum: "(\<Sum>k<n. (- 1) ^ k * cdf_term x k) = x * cdf_horner (x\<^sup>2) 0 n"
  using cdf_horner_shift[of 0 x n] by simp

lemma norm_cdf_lower:
  assumes "0 \<le> x" and "x\<^sup>2 \<le> 4 * real m + 2" and "0 \<le> c" and "0 \<le> r"
    and "r \<le> x * cdf_horner (x\<^sup>2) 0 (2 * m)"
    and "c\<^sup>2 * (2 * 3.141592654) \<le> r\<^sup>2"
  shows "1 / 2 + c \<le> norm_cdf x"
proof -
  have "c\<^sup>2 * (2 * pi) \<le> c\<^sup>2 * (2 * 3.141592654)"
    using pi_upper by (intro mult_left_mono) simp_all
  then have "c\<^sup>2 * (2 * pi) \<le> r\<^sup>2" using assms(6) by linarith
  then have "sqrt (c\<^sup>2 * (2 * pi)) \<le> sqrt (r\<^sup>2)" by (rule real_sqrt_le_mono)
  then have "c * sqrt (2 * pi) \<le> r"
    using assms(3,4) by (simp add: real_sqrt_mult)
  also have "r \<le> (\<Sum>k<2 * m. (- 1) ^ k * cdf_term x k)"
    using assms(5) by (simp only: cdf_horner_sum)
  also have "\<dots> \<le> gauss_area x" by (rule gauss_area_bounds(1)[OF assms(1,2)])
  finally have "c \<le> gauss_area x / sqrt (2 * pi)"
    by (simp add: pos_le_divide_eq)
  then show ?thesis by (simp add: norm_cdf_def)
qed

lemma norm_cdf_upper:
  assumes "0 \<le> x" and "x\<^sup>2 \<le> 4 * real m + 2" and "0 \<le> c"
    and "x * cdf_horner (x\<^sup>2) 0 (2 * m + 1) \<le> r"
    and "r\<^sup>2 \<le> c\<^sup>2 * (2 * 3.141592653)"
  shows "norm_cdf x \<le> 1 / 2 + c"
proof -
  have "c\<^sup>2 * (2 * 3.141592653) \<le> c\<^sup>2 * (2 * pi)"
    using pi_lower by (intro mult_left_mono) simp_all
  then have "r\<^sup>2 \<le> c\<^sup>2 * (2 * pi)" using assms(5) by linarith
  then have "sqrt (r\<^sup>2) \<le> sqrt (c\<^sup>2 * (2 * pi))" by (rule real_sqrt_le_mono)
  then have "\<bar>r\<bar> \<le> c * sqrt (2 * pi)"
    using assms(3) by (simp add: real_sqrt_mult)
  then have "r \<le> c * sqrt (2 * pi)" by linarith
  moreover have "gauss_area x \<le> (\<Sum>k<2 * m + 1. (- 1) ^ k * cdf_term x k)"
    by (rule gauss_area_bounds(2)[OF assms(1,2)])
  moreover have "(\<Sum>k<2 * m + 1. (- 1) ^ k * cdf_term x k) \<le> r"
    using assms(4) by (simp only: cdf_horner_sum)
  ultimately have "gauss_area x \<le> c * sqrt (2 * pi)"
    by linarith
  then have "gauss_area x / sqrt (2 * pi) \<le> c"
    by (simp add: pos_divide_le_eq)
  then show ?thesis by (simp add: norm_cdf_def)
qed

lemma norm_cdf_at_3_10: "0.999025 \<le> norm_cdf (31 / 10)"
proof -
  have "1 / 2 + 0.499025 \<le> norm_cdf (31 / 10)"
    by (rule norm_cdf_lower[where m = 10 and r = "1.25088"])
      (simp_all add: power_divide eval_nat_numeral)
  then show ?thesis by simp
qed

lemma norm_cdf_at_3_11: "norm_cdf (311 / 100) \<le> 0.999075"
proof -
  have "norm_cdf (311 / 100) \<le> 1 / 2 + 0.499075"
    by (rule norm_cdf_upper[where m = 9 and r = "1.25098"])
      (simp_all add: power_divide eval_nat_numeral)
  then show ?thesis by simp
qed

lemma norm_cdf_at_0_841: "norm_cdf (841 / 1000) \<le> 0.8"
proof -
  have "norm_cdf (841 / 1000) \<le> 1 / 2 + 0.3"
    by (rule norm_cdf_upper[where m = 2 and r = "0.7516"])
      (simp_all add: power_divide eval_nat_numeral)
  then show ?thesis by simp
qed

lemma norm_cdf_at_0_842: "0.8 \<le> norm_cdf (842 / 1000)"
proof -
  have "1 / 2 + 0.3 \<le> norm_cdf (842 / 1000)"
    by (rule norm_cdf_lower[where m = 2 and r = "0.752"])
      (simp_all add: power_divide eval_nat_numeral)
  then show ?thesis by simp
qed

lemma norm_cdf_at_1_9599635: "norm_cdf (19599635 / 10000000) \<le> 0.975"
proof -
  have "norm_cdf (19599635 / 10000000) \<le> 1 / 2 + 0.475"
    by (rule norm_cdf_upper[where m = 6 and r = "1.19064841"])
      (simp_all add: power_divide eval_nat_numeral)
  then show ?thesis by simp
qed

lemma norm_cdf_at_1_9599645: "0.975 \<le> norm_cdf (19599645 / 10000000)"
proof -
  have "1 / 2 + 0.475 \<le> norm_cdf (19599645 / 10000000)"
    by (rule norm_cdf_lower[where m = 7 and r = "1.19064849"])
      (simp_all add: power_divide eval_nat_numeral)
  then show ?thesis by simp
qed

lemma norm_cdf_at_2_32: "norm_cdf (232 / 100) \<le> 0.99"
proof -
  have "norm_cdf (232 / 100) \<le> 1 / 2 + 0.49"
    by (rule norm_cdf_upper[where m = 5 and r = "1.228"])
      (simp_all add: power_divide eval_nat_numeral)
  then show ?thesis by simp
qed

lemma norm_cdf_at_2_33: "0.99 \<le> norm_cdf (233 / 100)"
proof -
  have "1 / 2 + 0.49 \<le> norm_cdf (233 / 100)"
    by (rule norm_cdf_lower[where m = 6 and r = "1.2284"])
      (simp_all add: power_divide eval_nat_numeral)
  then show ?thesis by simp
qed

subsection \<open>Quantiles\<close>

lemma norm_quantile_cdf: "norm_quantile (norm_cdf x) = x"
  unfolding norm_quantile_def by (rule the_equality) (simp_all add: norm_cdf_eq_iff)

lemma norm_quantile_bracket:
  assumes "norm_cdf a \<le> q" and "q \<le> norm_cdf b"
  shows "norm_cdf (norm_quantile q) = q" and "a \<le> norm_quantile q" and "norm_quantile q \<le> b"
proof -
  have "norm_cdf a \<le> norm_cdf b" using assms by linarith
  then have "a \<le> b" by (simp only: norm_cdf_le_iff)
  from IVT'[of norm_cdf a q b, OF assms this continuous_on_norm_cdf]
  obtain x where x: "a \<le> x" "x \<le> b" "norm_cdf x = q" by blast
  have "norm_quantile q = x"
    using norm_quantile_cdf[of x] x(3) by simp
  with x show "norm_cdf (norm_quantile q) = q" and "a \<le> norm_quantile q"
    and "norm_quantile q \<le> b" by simp_all
qed

lemma norm_quantile_reflect:
  assumes "norm_cdf x = q"
  shows "norm_quantile (1 - q) = - x"
  using norm_quantile_cdf[of "- x"] assms by (simp add: norm_cdf_minus)

lemma norm_quantile_0975:
  shows "norm_cdf (norm_quantile 0.975) = 0.975"
    and "1.9599635 \<le> norm_quantile 0.975" and "norm_quantile 0.975 \<le> 1.9599645"
  using norm_quantile_bracket[OF norm_cdf_at_1_9599635 norm_cdf_at_1_9599645] by simp_all

lemma norm_quantile_08:
  shows "norm_cdf (norm_quantile 0.8) = 0.8"
    and "0.841 \<le> norm_quantile 0.8" and "norm_quantile 0.8 \<le> 0.842"
  using norm_quantile_bracket[OF norm_cdf_at_0_841 norm_cdf_at_0_842] by simp_all

lemma norm_quantile_099:
  shows "norm_cdf (norm_quantile 0.99) = 0.99"
    and "2.32 \<le> norm_quantile 0.99" and "norm_quantile 0.99 \<le> 2.33"
  using norm_quantile_bracket[OF norm_cdf_at_2_32 norm_cdf_at_2_33] by simp_all

lemma norm_quantile_001:
  shows "norm_quantile 0.01 = - norm_quantile 0.99"
    and "- 2.33 \<le> norm_quantile 0.01" and "norm_quantile 0.01 \<le> - 2.32"
proof -
  show eq: "norm_quantile 0.01 = - norm_quantile 0.99"
    using norm_quantile_reflect[OF norm_quantile_099(1)] by simp
  show "- 2.33 \<le> norm_quantile 0.01" and "norm_quantile 0.01 \<le> - 2.32"
    unfolding eq using norm_quantile_099(2,3) by simp_all
qed

section \<open>The two-proportion Z-test: results\<close>

lemma se_Finite:
  assumes "0 \<le> p * (1 - p) / real_of_int n"
  shows "se p n = Finite (sqrt (p * (1 - p) / real_of_int n))"
  using assms by (simp add: se_def)

lemma se_diff_Finite: "se_diff (Finite a) (Finite b) = Finite (sqrt (a\<^sup>2 + b\<^sup>2))"
  by (simp add: se_diff_def power2_eq_square not_less)

lemma twoProportionZTest_finite:
  assumes "n_A \<noteq> 0" and "n_B \<noteq> 0"
    and pA: "pA = real_of_int conv_A / real_of_int n_A"
    and pB: "pB = real_of_int conv_B / real_of_int n_B"
    and "0 \<le> pA * (1 - pA) / real_of_int n_A"
    and "0 \<le> pB * (1 - pB) / real_of_int n_B"
    and sd: "sd = sqrt ((sqrt (pA * (1 - pA) / real_of_int n_A))\<^sup>2
                + (sqrt (pB * (1 - pB) / real_of_int n_B))\<^sup>2)"
    and "sd \<noteq> 0"
    and z: "z = (pB - pA) / sd"
    and p: "p = 2 * (1 - norm_cdf \<bar>z\<bar>)"
  shows "twoProportionZTest conv_A n_A conv_B n_B alpha =
    Inr \<lparr>p_A = pA, p_B = pB, z_score = Finite z, p_value = Finite p,
         decision = (if p < alpha then REJECT_NULL else FAIL_TO_REJECT)\<rparr>"
proof -
  have seA: "se pA n_A = Finite (sqrt (pA * (1 - pA) / real_of_int n_A))"
    by (rule se_Finite) fact
  have seB: "se pB n_B = Finite (sqrt (pB * (1 - pB) / real_of_int n_B))"
    by (rule se_Finite) fact
  have d: "se_diff (se pA n_A) (se pB n_B) = Finite sd"
    unfolding seA seB se_diff_Finite sd ..
  have zz: "np_div (Finite (pB - pA)) (Finite sd) = Finite z"
    using \<open>sd \<noteq> 0\<close> by (simp add: z)
  have pp: "np_mul (Finite 2) (np_sub (Finite 1) (norm_cdf_f (np_abs (Finite z)))) = Finite p"
    by (simp add: np_sub_def p)
  show ?thesis
    unfolding twoProportionZTest_def Let_def pA[symmetric] pB[symmetric] d zz pp decide_def
    using assms(1,2) by simp
qed


lemma ab_scenario_z:
  fixes z :: real
  assumes "z = (0.06 - 0.05) / sqrt ((sqrt (0.05 * (1 - 0.05) / 10000))\<^sup>2
                                + (sqrt (0.06 * (1 - 0.06) / 10000))\<^sup>2)"
  shows "3.1 < z" and "z < 3.105"
    and "0.00185 \<le> 2 * (1 - norm_cdf \<bar>z\<bar>)" and "2 * (1 - norm_cdf \<bar>z\<bar>) < 0.00195"
proof -
  define sd :: real where "sd = sqrt (1039 / 10 ^ 8)"
  have z_def: "z = (1 / 100) / sd"
    by (simp add: assms sd_def)
  have sd_hi: "sd < 1 / 310"
    unfolding sd_def by (rule real_less_lsqrt) (simp_all add: power2_eq_square)
  have sd_lo: "2 / 621 < sd"
    unfolding sd_def by (rule real_less_rsqrt) (simp add: power2_eq_square)
  have sd_pos: "0 < sd" using sd_lo by linarith
  show z_lo: "3.1 < z"
    using sd_hi sd_pos by (simp add: z_def field_simps)
  show z_hi: "z < 3.105"
    using sd_lo sd_pos by (simp add: z_def field_simps)
  have "norm_cdf (31 / 10) < norm_cdf z"
    using z_lo by (simp add: norm_cdf_less_iff)
  then have c_lo: "0.999025 < norm_cdf z"
    using norm_cdf_at_3_10 by linarith
  have "norm_cdf z < norm_cdf (311 / 100)"
    using z_hi by (simp add: norm_cdf_less_iff)
  then have c_hi: "norm_cdf z < 0.999075"
    using norm_cdf_at_3_11 by linarith
  have abs_z: "\<bar>z\<bar> = z" using z_lo by simp
  show "0.00185 \<le> 2 * (1 - norm_cdf \<bar>z\<bar>)" and "2 * (1 - norm_cdf \<bar>z\<bar>) < 0.00195"
    using c_lo c_hi by (simp_all add: abs_z)
qed

lemma ab_scenario_run:
  fixes z :: real
  assumes "z = (0.06 - 0.05) / sqrt ((sqrt (0.05 * (1 - 0.05) / 10000))\<^sup>2
                                + (sqrt (0.06 * (1 - 0.06) / 10000))\<^sup>2)"
  shows "twoProportionZTest 500 10000 600 10000 alpha =
      Inr \<lparr>p_A = 0.05, p_B = 0.06, z_score = Finite z,
           p_value = Finite (2 * (1 - norm_cdf \<bar>z\<bar>)),
           decision = (if 2 * (1 - norm_cdf \<bar>z\<bar>) < alpha then REJECT_NULL
                       else FAIL_TO_REJECT)\<rparr>"
proof -
  define sd :: real where
    "sd = sqrt ((sqrt (0.05 * (1 - 0.05) / real_of_int 10000))\<^sup>2
              + (sqrt (0.06 * (1 - 0.06) / real_of_int 10000))\<^sup>2)"
  have sd_pos: "0 < sd" by (simp add: sd_def)
  show ?thesis
    by (rule twoProportionZTest_finite[where sd = sd])
      (use sd_pos in \<open>simp_all add: sd_def assms\<close>)
qed

text \<open>
  Claim C1. On the counts of the notebook, \<open>conv_A = 500\<close>, \<open>n_A = 10000\<close>,
  \<open>conv_B = 600\<close>, \<open>n_B = 10000\<close>, with \<open>alpha = 0.05\<close>, the test returns the rates
  \<open>0.05\<close> and \<open>0.06\<close>, the statistic \<open>z = (p_B - p_A) / sqrt (SE_A^2 + SE_B^2)\<close> with
  \<open>SE = sqrt (p (1 - p) / n)\<close>, and the two-tailed p-value \<open>2 (1 - Phi |z|)\<close>; \<open>z\<close> is
  \<open>3.10\<close> to two decimals, the p-value is \<open>0.0019\<close> to four decimals, and the decision is
  to reject the null hypothesis.
\<close>

theorem two_proportion_scenario:
  "\<exists>z p. twoProportionZTest 500 10000 600 10000 0.05 =
      Inr \<lparr>p_A = 0.05, p_B = 0.06, z_score = Finite z, p_value = Finite p,
           decision = REJECT_NULL\<rparr>
    \<and> z = (0.06 - 0.05) / sqrt ((sqrt (0.05 * (1 - 0.05) / 10000))\<^sup>2
                                + (sqrt (0.06 * (1 - 0.06) / 10000))\<^sup>2)
    \<and> p = 2 * (1 - norm_cdf \<bar>z\<bar>)
    \<and> 3.095 \<le> z \<and> z < 3.105 \<and> 0.00185 \<le> p \<and> p < 0.00195"
proof -
  define z :: real where
    "z = (0.06 - 0.05) / sqrt ((sqrt (0.05 * (1 - 0.05) / 10000))\<^sup>2
                              + (sqrt (0.06 * (1 - 0.06) / 10000))\<^sup>2)"
  define p :: real where "p = 2 * (1 - norm_cdf \<bar>z\<bar>)"
  note v = ab_scenario_z[OF z_def]
  have "p < 0.05" using v(4) by (simp add: p_def)
  then have "twoProportionZTest 500 10000 600 10000 0.05 =
      Inr \<lparr>p_A = 0.05, p_B = 0.06, z_score = Finite z, p_value = Finite p,
           decision = REJECT_NULL\<rparr>"
    using ab_scenario_run[OF z_def, of "0.05"] by (simp add: p_def)
  moreover have "3.095 \<le> z" using v(1) by simp
  moreover have "0.00185 \<le> p" and "p < 0.00195"
    using v(3,4) by (simp_all add: p_def)
  ultimately show ?thesis
    using v(2) z_def p_def by blast
qed

text \<open>
  Claim C4. Whenever the test returns a result, its decision is \<open>REJECT_NULL\<close> if and only
  if the computed p-value is strictly less than \<open>alpha\<close> (as floats: a \<open>nan\<close> p-value is not
  less than anything); in particular a p-value equal to \<open>alpha\<close> gives \<open>FAIL_TO_REJECT\<close>.
  This holds for every \<open>alpha\<close>, so for every \<open>alpha\<close> in \<open>(0, 1)\<close>. A tie occurs on the
  counts of the notebook when \<open>alpha\<close> is the p-value itself, which lies in \<open>(0, 1)\<close>.
\<close>

theorem decision_rule:
  assumes "twoProportionZTest conv_A n_A conv_B n_B alpha = Inr r"
  shows "(decision r = REJECT_NULL \<longleftrightarrow> np_less (p_value r) (Finite alpha))
    \<and> (p_value r = Finite alpha \<longrightarrow> decision r = FAIL_TO_REJECT)"
proof -
  from assms have nz: "\<not> (n_A = 0 \<or> n_B = 0)"
    by (auto simp add: twoProportionZTest_def)
  from assms have "decision r = decide (p_value r) alpha"
    unfolding twoProportionZTest_def Let_def if_not_P[OF nz] by auto
  then show ?thesis
    by (auto simp add: decide_def)
qed

theorem decision_rule_witness:
  "\<exists>a r. a = 2 * (1 - norm_cdf \<bar>(0.06 - 0.05) / sqrt ((sqrt (0.05 * (1 - 0.05) / 10000))\<^sup>2
                                + (sqrt (0.06 * (1 - 0.06) / 10000))\<^sup>2)\<bar>)
     \<and> 0 < a \<and> a < 1
     \<and> twoProportionZTest 500 10000 600 10000 a = Inr r
     \<and> p_value r = Finite a
     \<and> \<not> np_less (p_value r) (Finite a)
     \<and> decision r = FAIL_TO_REJECT"
proof -
  define z :: real where
    "z = (0.06 - 0.05) / sqrt ((sqrt (0.05 * (1 - 0.05) / 10000))\<^sup>2
                              + (sqrt (0.06 * (1 - 0.06) / 10000))\<^sup>2)"
  define a :: real where "a = 2 * (1 - norm_cdf \<bar>z\<bar>)"
  define r where "r = \<lparr>p_A = 0.05, p_B = 0.06, z_score = Finite z, p_value = Finite a,
     decision = (if a < a then REJECT_NULL else FAIL_TO_REJECT)\<rparr>"
  have run: "twoProportionZTest 500 10000 600 10000 a = Inr r"
    unfolding r_def a_def by (rule ab_scenario_run[OF z_def])
  have pv: "p_value r = Finite a" by (simp add: r_def)
  have rng: "0 < a" "a < 1"
    using ab_scenario_z(3,4)[OF z_def] by (simp_all add: a_def)
  have "a = 2 * (1 - norm_cdf \<bar>(0.06 - 0.05) / sqrt ((sqrt (0.05 * (1 - 0.05) / 10000))\<^sup>2
                                + (sqrt (0.06 * (1 - 0.06) / 10000))\<^sup>2)\<bar>)"
    unfolding a_def z_def ..
  moreover have "\<not> np_less (p_value r) (Finite a)" by (simp add: pv)
  moreover have "decision r = FAIL_TO_REJECT"
    using decision_rule[OF run] pv by blast
  ultimately show ?thesis
    using rng run pv by blast
qed

lemma se_zero: "n \<noteq> 0 \<Longrightarrow> se 0 n = Finite 0" and se_one: "n \<noteq> 0 \<Longrightarrow> se 1 n = Finite 0"
  by (simp_all add: se_def)

text \<open>
  Claim C9. The division by \<open>se_diff\<close> is unguarded: for positive group sizes, whenever
  \<open>conv_A\<close> is \<open>0\<close> or \<open>n_A\<close> and \<open>conv_B\<close> is \<open>0\<close> or \<open>n_B\<close>, both standard errors and
  \<open>se_diff\<close> are zero, the statistic is the quotient of \<open>p_B - p_A\<close> by zero, and the test
  returns a \<open>z_score\<close> that is no finite number: \<open>nan\<close> when the two rates agree, \<open>inf\<close> or
  \<open>-inf\<close> otherwise.
\<close>

theorem z_statistic_undefined:
  assumes "0 < n_A" and "0 < n_B"
    and "conv_A = 0 \<or> conv_A = n_A" and "conv_B = 0 \<or> conv_B = n_B"
  shows "\<exists>r. twoProportionZTest conv_A n_A conv_B n_B alpha = Inr r
    \<and> se (p_A r) n_A = Finite 0 \<and> se (p_B r) n_B = Finite 0
    \<and> se_diff (se (p_A r) n_A) (se (p_B r) n_B) = Finite 0
    \<and> z_score r = np_div (Finite (p_B r - p_A r)) (Finite 0)
    \<and> z_score r = (if p_B r = p_A r then NaN else if p_A r < p_B r then PosInf else NegInf)
    \<and> (\<forall>z. z_score r \<noteq> Finite z)"
proof -
  define pA where "pA = real_of_int conv_A / real_of_int n_A"
  define pB where "pB = real_of_int conv_B / real_of_int n_B"
  have pA: "pA = 0 \<or> pA = 1" using assms(1,3) by (auto simp add: pA_def)
  have pB: "pB = 0 \<or> pB = 1" using assms(2,4) by (auto simp add: pB_def)
  have nz: "n_A \<noteq> 0" "n_B \<noteq> 0" using assms(1,2) by simp_all
  have seA: "se pA n_A = Finite 0" using pA se_zero[OF nz(1)] se_one[OF nz(1)] by auto
  have seB: "se pB n_B = Finite 0" using pB se_zero[OF nz(2)] se_one[OF nz(2)] by auto
  have sd: "se_diff (Finite 0) (Finite 0) = Finite 0" by (simp add: se_diff_def)
  define z where "z = np_div (Finite (pB - pA)) (Finite 0)"
  define p where "p = np_mul (Finite 2) (np_sub (Finite 1) (norm_cdf_f (np_abs z)))"
  define r where "r = \<lparr>p_A = pA, p_B = pB, z_score = z, p_value = p, decision = decide p alpha\<rparr>"
  have run: "twoProportionZTest conv_A n_A conv_B n_B alpha = Inr r"
    unfolding twoProportionZTest_def Let_def pA_def[symmetric] pB_def[symmetric] seA seB sd
      z_def[symmetric] p_def[symmetric] r_def
    using nz by simp
  have zc: "z = (if pB = pA then NaN else if pA < pB then PosInf else NegInf)"
    by (simp add: z_def)
  have "\<forall>x. z \<noteq> Finite x" by (simp add: zc)
  then show ?thesis
    using run seA seB sd zc by (auto simp add: r_def z_def)
qed

theorem z_statistic_undefined_witness:
  "(0::int) < 10000 \<and> ((0::int) = 0 \<or> (0::int) = 10000)
   \<and> ((10000::int) = 0 \<or> (10000::int) = 10000)
   \<and> (\<exists>r. twoProportionZTest 0 10000 10000 10000 0.05 = Inr r
        \<and> p_A r = 0 \<and> p_B r = 1 \<and> z_score r = PosInf)"
proof -
  from z_statistic_undefined[of 10000 10000 0 10000 "0.05"]
  obtain r where r: "twoProportionZTest 0 10000 10000 10000 0.05 = Inr r"
    "z_score r = (if p_B r = p_A r then NaN else if p_A r < p_B r then PosInf else NegInf)"
    by auto
  from r(1) have "p_A r = 0" "p_B r = 1"
    by (auto simp add: twoProportionZTest_def Let_def)
  with r show ?thesis by auto
qed

section \<open>Minimum detectable effect: results\<close>

lemma minimumDetectableEffect_finite:
  assumes "0 < n" and "0 < alpha" and "alpha < 2" and "0 < pwr" and "pwr < 1"
  shows "minimumDetectableEffect n alpha pwr =
    Inr (Finite ((norm_quantile (1 - alpha / 2) + norm_quantile pwr)
                  * sqrt ((0.5 * (1 - 0.5)) / real_of_int n) * sqrt 2))"
  using assms by (simp add: minimumDetectableEffect_def norm_ppf_def Let_def)

lemma mde_scale: "0 < n \<Longrightarrow> sqrt ((0.5 * (1 - 0.5)) / real_of_int n) * sqrt 2 = 1 / sqrt (2 * real_of_int n)"
  by (simp add: real_sqrt_mult[symmetric] real_sqrt_divide[symmetric] field_simps)

text \<open>
  Claim C2. For \<open>n = 5000\<close>, \<open>alpha = 0.05\<close>, \<open>power = 0.8\<close> (and the baseline proportion
  \<open>0.5\<close> of the code) the cell returns
  \<open>MDE = (z_{1 - alpha/2} + z_power) * SE * sqrt 2\<close> with \<open>SE = sqrt (p (1 - p) / n)\<close>, where
  the two critical values are the standard normal quantiles of levels \<open>1 - alpha/2\<close> and
  \<open>power\<close>; the value is \<open>0.0280\<close> to four decimals.
\<close>

theorem mde_scenario:
  "\<exists>m. minimumDetectableEffect 5000 0.05 0.8 = Inr (Finite m)
     \<and> m = (norm_quantile (1 - 0.05 / 2) + norm_quantile 0.8)
             * sqrt ((0.5 * (1 - 0.5)) / 5000) * sqrt 2
     \<and> norm_cdf (norm_quantile (1 - 0.05 / 2)) = 1 - 0.05 / 2
     \<and> norm_cdf (norm_quantile 0.8) = 0.8
     \<and> 0.02795 \<le> m \<and> m < 0.02805"
proof -
  define zs where "zs = norm_quantile (1 - 0.05 / 2) + norm_quantile 0.8"
  define m where "m = zs * sqrt ((0.5 * (1 - 0.5)) / 5000) * sqrt 2"
  have lv: "(1::real) - 0.05 / 2 = 0.975" by simp
  have "sqrt ((0.5 * (1 - 0.5)) / 5000) * sqrt 2 = sqrt ((1 / 100)\<^sup>2)"
    by (simp add: real_sqrt_mult[symmetric] power2_eq_square)
  then have sc: "sqrt ((0.5 * (1 - 0.5)) / 5000) * sqrt 2 = 1 / 100"
    by (simp only: real_sqrt_abs abs_of_pos)
  have m_eq: "m = zs / 100"
    unfolding m_def mult.assoc sc by simp
  have zs_lo: "2.8 \<le> zs" and zs_hi: "zs \<le> 2.802"
    using norm_quantile_0975(2,3) norm_quantile_08(2,3) by (simp_all add: zs_def lv)
  have run: "minimumDetectableEffect 5000 0.05 0.8 = Inr (Finite m)"
    unfolding m_def zs_def
    using minimumDetectableEffect_finite[of 5000 "0.05" "0.8"] by simp
  have "0.02795 \<le> m" and "m < 0.02805"
    using zs_lo zs_hi by (simp_all add: m_eq)
  moreover have "norm_cdf (norm_quantile (1 - 0.05 / 2)) = 1 - 0.05 / 2"
    unfolding lv by (rule norm_quantile_0975(1))
  ultimately show ?thesis
    using run norm_quantile_08(1) m_def zs_def by blast
qed

text \<open>
  Claim C6, as amended. For \<open>alpha\<close> and \<open>power\<close> in \<open>(0, 1)\<close> whose two critical values
  have a positive sum \<open>z_{1 - alpha/2} + z_power\<close> (as for \<open>alpha = 0.05\<close> and \<open>power = 0.8\<close>),
  and sample sizes \<open>0 < n1 < n2\<close>, both effects are finite numbers and \<open>MDE(n2) < MDE(n1)\<close>.
\<close>

theorem mde_decreasing:
  assumes "0 < alpha" and "alpha < 1" and "0 < pwr" and "pwr < 1"
    and "0 < norm_quantile (1 - alpha / 2) + norm_quantile pwr"
    and "0 < n1" and "n1 < n2"
  shows "\<exists>m1 m2. minimumDetectableEffect n1 alpha pwr = Inr (Finite m1)
    \<and> minimumDetectableEffect n2 alpha pwr = Inr (Finite m2)
    \<and> m2 < m1"
proof -
  define zs where "zs = norm_quantile (1 - alpha / 2) + norm_quantile pwr"
  define s where "s n = sqrt ((0.5 * (1 - 0.5)) / real_of_int n) * sqrt 2" for n
  have zs_pos: "0 < zs" using assms(5) by (simp add: zs_def)
  have n2: "0 < n2" using assms(6,7) by linarith
  have r1: "minimumDetectableEffect n1 alpha pwr = Inr (Finite (zs * s n1))"
    using minimumDetectableEffect_finite[of n1 alpha pwr] assms
    by (simp add: zs_def s_def mult.assoc)
  have r2: "minimumDetectableEffect n2 alpha pwr = Inr (Finite (zs * s n2))"
    using minimumDetectableEffect_finite[of n2 alpha pwr] assms n2
    by (simp add: zs_def s_def mult.assoc)
  have "sqrt (2 * real_of_int n1) < sqrt (2 * real_of_int n2)"
    using assms(7) by simp
  moreover have "0 < sqrt (2 * real_of_int n1)" using assms(6) by simp
  ultimately have "1 / sqrt (2 * real_of_int n2) < 1 / sqrt (2 * real_of_int n1)"
    by (simp add: frac_less2)
  then have lt: "s n2 < s n1"
    unfolding s_def using mde_scale[OF assms(6)] mde_scale[OF n2] by simp
  have "zs * s n2 < zs * s n1"
    using lt zs_pos by simp
  then show ?thesis
    using r1 r2 by blast
qed

theorem mde_decreasing_witness:
  "(0::real) < 0.05 \<and> (0.05::real) < 1 \<and> (0::real) < 0.8 \<and> (0.8::real) < 1
   \<and> 0 < norm_quantile (1 - 0.05 / 2) + norm_quantile 0.8
   \<and> (0::int) < 5000 \<and> (5000::int) < 10000
   \<and> (\<exists>m1 m2. minimumDetectableEffect 5000 0.05 0.8 = Inr (Finite m1)
        \<and> minimumDetectableEffect 10000 0.05 0.8 = Inr (Finite m2) \<and> m2 < m1)"
proof -
  have lv: "(1::real) - 0.05 / 2 = 0.975" by simp
  have pos: "0 < norm_quantile (1 - 0.05 / 2) + norm_quantile 0.8"
    unfolding lv using norm_quantile_0975(2) norm_quantile_08(2) by simp
  have "\<exists>m1 m2. minimumDetectableEffect 5000 0.05 0.8 = Inr (Finite m1)
        \<and> minimumDetectableEffect 10000 0.05 0.8 = Inr (Finite m2) \<and> m2 < m1"
    by (rule mde_decreasing[of "0.05" "0.8" 5000 10000]) (use pos in simp_all)
  then show ?thesis
    using pos by simp
qed

text \<open>
  Claim C6 as stated fails: for \<open>alpha = 0.05\<close> and \<open>power = 0.01\<close>, both in \<open>(0, 1)\<close>, the
  critical values are about \<open>1.96\<close> and \<open>- 2.33\<close>, their sum is negative, and the effect grows
  with the sample size: it is at most \<open>- 0.0036\<close> for \<open>n = 5000\<close> and at least \<open>- 0.0027\<close> for
  \<open>n = 10000\<close>.
\<close>

theorem mde_not_decreasing:
  "minimumDetectableEffect 5000 0.05 0.01 =
     Inr (Finite ((norm_quantile (1 - 0.05 / 2) + norm_quantile 0.01)
                   * sqrt ((0.5 * (1 - 0.5)) / 5000) * sqrt 2))
   \<and> minimumDetectableEffect 10000 0.05 0.01 =
     Inr (Finite ((norm_quantile (1 - 0.05 / 2) + norm_quantile 0.01)
                   * sqrt ((0.5 * (1 - 0.5)) / 10000) * sqrt 2))
   \<and> (norm_quantile (1 - 0.05 / 2) + norm_quantile 0.01)
         * sqrt ((0.5 * (1 - 0.5)) / 5000) * sqrt 2 \<le> - 0.0036
   \<and> - 0.0027 \<le> (norm_quantile (1 - 0.05 / 2) + norm_quantile 0.01)
         * sqrt ((0.5 * (1 - 0.5)) / 10000) * sqrt 2"
proof -
  define zs where "zs = norm_quantile (1 - 0.05 / 2) + norm_quantile 0.01"
  have lv: "(1::real) - 0.05 / 2 = 0.975" by simp
  have zs_lo: "- 0.3700365 \<le> zs" and zs_hi: "zs \<le> - 0.3600355"
    using norm_quantile_0975(2,3) norm_quantile_001(2,3) by (simp_all add: zs_def lv)
  have "sqrt ((0.5 * (1 - 0.5)) / 5000) * sqrt 2 = sqrt ((1 / 100)\<^sup>2)"
    by (simp add: real_sqrt_mult[symmetric] power2_eq_square)
  then have s1: "sqrt ((0.5 * (1 - 0.5)) / 5000) * sqrt 2 = 1 / 100"
    by (simp only: real_sqrt_abs abs_of_pos)
  have s2: "sqrt ((0.5 * (1 - 0.5)) / 10000) * sqrt 2 = 1 / sqrt 20000"
    using mde_scale[of 10000] by simp
  have "141 \<le> sqrt 20000"
    by (rule real_le_rsqrt) (simp add: power2_eq_square)
  then have inv: "1 / sqrt 20000 \<le> 1 / 141" and pos: "0 < 1 / sqrt 20000"
    by (simp_all add: field_simps)
  have m1: "zs * sqrt ((0.5 * (1 - 0.5)) / 5000) * sqrt 2 \<le> - 0.0036"
    unfolding mult.assoc s1 using zs_hi by simp
  have "- 0.3700365 * (1 / 141) \<le> - 0.3700365 * (1 / sqrt 20000)"
    by (rule mult_left_mono_neg[OF inv]) simp
  also have "\<dots> \<le> zs * (1 / sqrt 20000)"
    using zs_lo pos by (intro mult_right_mono) simp_all
  finally have m2: "- 0.0027 \<le> zs * sqrt ((0.5 * (1 - 0.5)) / 10000) * sqrt 2"
    unfolding mult.assoc s2 by simp
  have r1: "minimumDetectableEffect 5000 0.05 0.01 =
      Inr (Finite (zs * sqrt ((0.5 * (1 - 0.5)) / 5000) * sqrt 2))"
    unfolding zs_def using minimumDetectableEffect_finite[of 5000 "0.05" "0.01"] by simp
  have r2: "minimumDetectableEffect 10000 0.05 0.01 =
      Inr (Finite (zs * sqrt ((0.5 * (1 - 0.5)) / 10000) * sqrt 2))"
    unfolding zs_def using minimumDetectableEffect_finite[of 10000 "0.05" "0.01"] by simp
  show ?thesis
    using r1 r2 m1 m2 unfolding zs_def by blast
qed

section \<open>CUPED: results\<close>

lemma np_mean_Finite: "xs \<noteq> [] \<Longrightarrow> np_mean xs = Finite (mean xs)"
  by (simp add: np_mean_def mean_def)

lemma np_var_population:
  "xs \<noteq> [] \<Longrightarrow> np_var 0 xs = Finite (population_variance xs)"
  by (simp add: np_var_def np_mean_Finite population_variance_def)

lemma np_var_sample:
  assumes "2 \<le> length xs"
  shows "np_var 1 xs = Finite (sample_variance xs)"
proof -
  have "xs \<noteq> []" using assms by auto
  moreover have "max (real (length xs) - 1) 0 = real (length xs) - 1" using assms by simp
  moreover have "real (length xs) - 1 \<noteq> 0" using assms by simp
  ultimately show ?thesis
    by (simp add: np_var_def np_mean_Finite sample_variance_def)
qed

lemma np_cov_sample:
  assumes "length X = length Y" and "2 \<le> length X"
  shows "np_cov X Y =
    Inr (Finite ((\<Sum>(x, y)\<leftarrow>zip X Y. (x - mean X) * (y - mean Y)) / (real (length X) - 1)))"
proof -
  have ne: "X \<noteq> []" "Y \<noteq> []" using assms by auto
  moreover have "max (real (length X) - 1) 0 = real (length X) - 1" using assms by simp
  moreover have "real (length X) - 1 \<noteq> 0" using assms by simp
  ultimately show ?thesis
    using assms(1) by (simp add: np_cov_def np_mean_Finite)
qed

lemma sum_list_adjusted:
  fixes X Y :: "real list"
  assumes "length X = length Y"
  shows "sum_list (map2 (\<lambda>y x. y - t * (x - m)) Y X) =
    sum_list Y - t * (sum_list X - real (length X) * m)"
  using assms by (induction X Y rule: list_induct2) (simp_all add: algebra_simps)

lemma mean_adjusted:
  assumes "length X = length Y" and "X \<noteq> []"
  shows "mean (map2 (\<lambda>y x. y - t * (x - mean X)) Y X) = mean Y"
proof -
  have "real (length X) * mean X = sum_list X"
    using assms(2) by (simp add: mean_def)
  then show ?thesis
    using assms(1) by (simp add: mean_def sum_list_adjusted[OF assms(1)])
qed

lemma cross_sum_adjusted:
  fixes X Y :: "real list"
  assumes "length X = length Y"
  shows "(\<Sum>(x, a)\<leftarrow>zip X (map2 (\<lambda>y x. y - t * (x - mx)) Y X). (x - mx) * (a - my)) =
    (\<Sum>(x, y)\<leftarrow>zip X Y. (x - mx) * (y - my)) - t * (\<Sum>x\<leftarrow>X. (x - mx)\<^sup>2)"
  using assms
proof (induction X Y rule: list_induct2)
  case Nil
  show ?case by simp
next
  case (Cons x xs y ys)
  have "(x - mx) * (y - t * (x - mx) - my) = (x - mx) * (y - my) - t * (x - mx)\<^sup>2"
    by (simp add: power2_eq_square algebra_simps)
  then show ?case
    using Cons.IH by (simp add: distrib_left)
qed

lemma map2_Finite:
  "map2 (\<lambda>y x. np_sub (Finite y) (np_mul (Finite t) (np_sub (Finite x) (Finite m)))) Y X =
   map Finite (map2 (\<lambda>y x. y - t * (x - m)) Y X)"
  by (simp add: np_sub_def case_prod_unfold)


text \<open>
  Claim C10. For a covariate \<open>X\<close> and an outcome \<open>Y\<close> of the same length \<open>n \<ge> 2\<close>, with
  positive (population) variance of \<open>X\<close>: the coefficient \<open>theta\<close> of the code is the sample
  covariance (denominator \<open>n - 1\<close>, the default of \<open>np.cov\<close>) divided by the population
  variance (denominator \<open>n\<close>, the default of \<open>np.var\<close>), that is \<open>n / (n - 1)\<close> times the
  population covariance over the population variance; and the covariance of \<open>X\<close> with the
  adjusted outcome, recomputed with \<open>np.cov\<close>, is exactly \<open>- cov(X, Y) / (n - 1)\<close>.
\<close>

theorem cuped_theta_mixed_denominators:
  assumes "length X = length Y" and "2 \<le> length X" and "0 < population_variance X"
  shows "\<exists>c t adj.
      np_cov X Y = Inr (Finite c)
    \<and> c = (\<Sum>(x, y)\<leftarrow>zip X Y. (x - mean X) * (y - mean Y)) / (real (length X) - 1)
    \<and> np_var 0 X = Finite (population_variance X)
    \<and> theta X Y = Inr (Finite t)
    \<and> t = c / population_variance X
    \<and> t = real (length X) / (real (length X) - 1)
            * population_covariance X Y / population_variance X
    \<and> cupedAdjust Y X = Inr (map Finite adj)
    \<and> adj = map2 (\<lambda>y x. y - t * (x - mean X)) Y X
    \<and> np_cov X adj = Inr (Finite (- c / (real (length X) - 1)))"
proof -
  define n where "n = real (length X)"
  define Sxy where "Sxy = (\<Sum>(x, y)\<leftarrow>zip X Y. (x - mean X) * (y - mean Y))"
  define Sxx where "Sxx = (\<Sum>x\<leftarrow>X. (x - mean X)\<^sup>2)"
  define c where "c = Sxy / (n - 1)"
  define v where "v = population_variance X"
  define t where "t = c / v"
  define adj where "adj = map2 (\<lambda>y x. y - t * (x - mean X)) Y X"
  have ne: "X \<noteq> []" using assms(2) by auto
  have n2: "2 \<le> n" using assms(2) by (simp add: n_def)
  have v_pos: "0 < v" using assms(3) by (simp add: v_def)
  have v_eq: "v = Sxx / n" by (simp add: v_def population_variance_def Sxx_def n_def)
  have cov: "np_cov X Y = Inr (Finite c)"
    unfolding c_def Sxy_def n_def by (rule np_cov_sample[OF assms(1,2)])
  have var: "np_var 0 X = Finite v"
    unfolding v_def by (rule np_var_population[OF ne])
  have th: "theta X Y = Inr (Finite t)"
    using v_pos by (simp add: theta_def cov var t_def)
  have pc: "population_covariance X Y = Sxy / n"
    by (simp add: population_covariance_def Sxy_def n_def)
  have t_pop: "t = n / (n - 1) * population_covariance X Y / v"
    unfolding t_def c_def pc using n2 v_pos by (simp add: field_simps)
  have run: "cupedAdjust Y X = Inr (map Finite adj)"
    by (simp only: cupedAdjust_def th sum.case np_mean_Finite[OF ne] map2_Finite adj_def)
  have len: "length X = length adj" using assms(1) by (simp add: adj_def)
  have len2: "2 \<le> length X" by (rule assms(2))
  have m_adj: "mean adj = mean Y"
    unfolding adj_def by (rule mean_adjusted[OF assms(1) ne])
  have "(\<Sum>(x, a)\<leftarrow>zip X adj. (x - mean X) * (a - mean adj)) =
      (\<Sum>(x, a)\<leftarrow>zip X adj. (x - mean X) * (a - mean Y))"
    by (simp only: m_adj)
  also have "\<dots> = Sxy - t * Sxx"
    unfolding adj_def Sxy_def Sxx_def by (rule cross_sum_adjusted[OF assms(1)])
  also have "t * Sxx = Sxy * n / (n - 1)"
    using v_pos n2 by (simp add: t_def c_def v_eq field_simps)
  also have "Sxy - Sxy * n / (n - 1) = - c"
    using n2 by (simp add: c_def field_simps)
  finally have "np_cov X adj = Inr (Finite (- c / (n - 1)))"
    using np_cov_sample[OF len len2] by (simp add: n_def)
  then show ?thesis
    using cov var th t_pop run
    unfolding c_def Sxy_def n_def v_def t_def adj_def by blast
qed

theorem cuped_theta_mixed_denominators_witness:
  "length [1, 2, 3 :: real] = length [2, 4, 7 :: real] \<and> 2 \<le> length [1, 2, 3 :: real]
   \<and> 0 < population_variance [1, 2, 3]
   \<and> np_cov [1, 2, 3] [2, 4, 7] = Inr (Finite (5 / 2))
   \<and> theta [1, 2, 3] [2, 4, 7] = Inr (Finite (15 / 4))
   \<and> cupedAdjust [2, 4, 7] [1, 2, 3] = Inr [Finite (23 / 4), Finite 4, Finite (13 / 4)]
   \<and> np_cov [1, 2, 3] [23 / 4, 4, 13 / 4] = Inr (Finite (- 5 / 4))"
proof -
  have m: "mean [1, 2, 3] = 2" "mean [2, 4, 7] = 13 / 3" by (simp_all add: mean_def)
  have v: "population_variance [1, 2, 3] = 2 / 3"
    by (simp add: population_variance_def m)
  have h: "length [1, 2, 3 :: real] = length [2, 4, 7 :: real]" "2 \<le> length [1, 2, 3 :: real]"
    "0 < population_variance [1, 2, 3]" by (simp_all add: v)
  from cuped_theta_mixed_denominators[OF h] obtain c t adj where r:
    "np_cov [1, 2, 3] [2, 4, 7] = Inr (Finite c)"
    "c = (\<Sum>(x, y)\<leftarrow>zip [1, 2, 3] [2, 4, 7]. (x - mean [1, 2, 3]) * (y - mean [2, 4, 7]))
          / (real (length [1, 2, 3 :: real]) - 1)"
    "theta [1, 2, 3] [2, 4, 7] = Inr (Finite t)"
    "t = c / population_variance [1, 2, 3]"
    "cupedAdjust [2, 4, 7] [1, 2, 3] = Inr (map Finite adj)"
    "adj = map2 (\<lambda>y x. y - t * (x - mean [1, 2, 3])) [2, 4, 7] [1, 2, 3]"
    "np_cov [1, 2, 3] adj = Inr (Finite (- c / (real (length [1, 2, 3 :: real]) - 1)))"
    by blast
  have c: "c = 5 / 2" unfolding r(2) m by simp
  have t: "t = 15 / 4" unfolding r(4) c v by simp
  have adj: "adj = [23 / 4, 4, 13 / 4]" unfolding r(6) t m by simp
  show ?thesis
    using h r(1,3,5,7) unfolding c t adj by simp
qed

text \<open>
  Claim C3 (the adjustment removes the covariance with the covariate) fails on the code. For
  the covariate \<open>[0, 1]\<close> and the outcome \<open>[0, 1]\<close>, whose covariance is \<open>1/2\<close>, the code
  returns the adjusted outcome \<open>[1, 0]\<close>, whose covariance with the covariate is \<open>- 1/2\<close>:
  the linear relation is reversed, not removed.
\<close>

theorem cuped_residual_covariance_example:
  "cupedAdjust [0, 1] [0, 1] = Inr [Finite 1, Finite 0]
   \<and> np_cov [0, 1] [0, 1] = Inr (Finite (1 / 2))
   \<and> np_cov [0, 1] [1, 0] = Inr (Finite (- 1 / 2))"
  by (simp add: cupedAdjust_def theta_def np_cov_def np_var_def np_mean_def np_sub_def
      power2_eq_square)

section \<open>Confidence intervals: results\<close>

lemma sample_variance_nonneg:
  assumes "2 \<le> length xs"
  shows "0 \<le> sample_variance xs"
proof -
  have "0 \<le> (\<Sum>x\<leftarrow>xs. (x - mean xs)\<^sup>2)"
    by (rule sum_list_nonneg) auto
  moreover have "0 < real (length xs) - 1" using assms by simp
  ultimately show ?thesis
    by (simp add: sample_variance_def)
qed

lemma twoMeanDifferenceInterval_finite:
  assumes "2 \<le> length sample1" and "2 \<le> length sample2"
  shows "twoMeanDifferenceInterval t_ppf sample1 sample2 =
    (Finite ((mean sample1 - mean sample2)
        - t_ppf 0.975 198 * sqrt (sample_variance sample1 / 100 + sample_variance sample2 / 100)),
     Finite ((mean sample1 - mean sample2)
        + t_ppf 0.975 198 * sqrt (sample_variance sample1 / 100 + sample_variance sample2 / 100)))"
proof -
  have ne: "sample1 \<noteq> []" "sample2 \<noteq> []" using assms by auto
  have "0 \<le> sample_variance sample1 / 100 + sample_variance sample2 / 100"
    using sample_variance_nonneg[OF assms(1)] sample_variance_nonneg[OF assms(2)] by simp
  then have nn: "\<not> sample_variance sample1 / 100 + sample_variance sample2 / 100 < 0"
    by simp
  show ?thesis
    unfolding twoMeanDifferenceInterval_def Let_def np_mean_Finite[OF ne(1)]
      np_mean_Finite[OF ne(2)] np_var_sample[OF assms(1)] np_var_sample[OF assms(2)]
    using nn by (simp add: np_sub_def)
qed

lemma welch_equal_sizes:
  assumes "v1 \<noteq> v2"
  shows "welch_satterthwaite_df v1 100 v2 100 \<noteq> 198"
proof
  assume eq: "welch_satterthwaite_df v1 100 v2 100 = 198"
  have D: "0 < v1\<^sup>2 + v2\<^sup>2"
    using assms by (metis add.right_neutral not_sum_power2_lt_zero power2_eq_iff_nonneg
        linorder_neqE_linordered_idom sum_power2_eq_zero_iff zero_eq_power2)
  define N where "N = (v1 + v2)\<^sup>2"
  define E where "E = v1\<^sup>2 + v2\<^sup>2"
  have num: "(v1 / 100 + v2 / 100)\<^sup>2 = N / 10000"
    by (simp add: N_def power2_eq_square field_simps)
  have den: "(v1 / 100)\<^sup>2 / (100 - 1) + (v2 / 100)\<^sup>2 / (100 - 1) = E / 990000"
    by (simp add: E_def power_divide)
  have "welch_satterthwaite_df v1 100 v2 100 = (N / 10000) / (E / 990000)"
    unfolding welch_satterthwaite_df_def num den ..
  also have "\<dots> = 99 * N / E" by simp
  finally have "99 * N / E = 198" using eq by simp
  moreover have "0 < E" using D by (simp only: E_def)
  then have "E \<noteq> 0" by simp
  ultimately have "99 * N = 198 * E"
    by (simp add: divide_eq_eq)
  then have "99 * (v1 + v2)\<^sup>2 = 198 * (v1\<^sup>2 + v2\<^sup>2)"
    by (simp add: N_def E_def)
  then have "(v1 - v2)\<^sup>2 = 0"
    by (simp add: power2_eq_square algebra_simps)
  then show False using assms by simp
qed


text \<open>
  Claim C7, as amended. For two samples of the size the cell draws, \<open>nA = nB = 100\<close>, and
  the level of the code (\<open>0.975\<close>, the two-tailed level of the 95% interval), the interval
  is \<open>(meanA - meanB) \<plusminus> t * sqrt (varA / nA + varB / nB)\<close> with the sample variances
  (denominator \<open>n - 1\<close>) and \<open>t\<close> the Student-t quantile for \<open>nA + nB - 2\<close> degrees of
  freedom; these are not the Welch-Satterthwaite degrees of freedom, which differ from
  \<open>nA + nB - 2\<close> as soon as the two sample variances differ.
\<close>

theorem two_mean_interval:
  assumes "length sample1 = 100" and "length sample2 = 100"
  shows "\<exists>d t s.
      d = mean sample1 - mean sample2
    \<and> t = t_ppf (1 - (1 - 0.95) / 2) (real (length sample1) + real (length sample2) - 2)
    \<and> s = sqrt (sample_variance sample1 / real (length sample1)
                + sample_variance sample2 / real (length sample2))
    \<and> twoMeanDifferenceInterval t_ppf sample1 sample2 = (Finite (d - t * s), Finite (d + t * s))
    \<and> (sample_variance sample1 \<noteq> sample_variance sample2 \<longrightarrow>
         welch_satterthwaite_df (sample_variance sample1) (real (length sample1))
           (sample_variance sample2) (real (length sample2))
         \<noteq> real (length sample1) + real (length sample2) - 2)"
proof -
  have len: "2 \<le> length sample1" "2 \<le> length sample2" using assms by simp_all
  have lv: "(1::real) - (1 - 0.95) / 2 = 0.975" by simp
  show ?thesis
    unfolding twoMeanDifferenceInterval_finite[OF len] assms lv
    using welch_equal_sizes[of "sample_variance sample1" "sample_variance sample2"]
    by simp
qed

lemma mean_two_mean_example:
  shows "mean (replicate 99 0 @ [100]) = 1" and "mean (replicate 100 0) = 0"
    and "sample_variance (replicate 99 0 @ [100]) = 100"
    and "sample_variance (replicate 100 0) = 0"
proof -
  show m1: "mean (replicate 99 0 @ [100]) = 1" by (simp add: mean_def sum_list_replicate)
  show m2: "mean (replicate 100 0) = 0" by (simp add: mean_def sum_list_replicate)
  show "sample_variance (replicate 99 0 @ [100]) = 100"
    unfolding sample_variance_def m1 by (simp add: sum_list_replicate)
  show "sample_variance (replicate 100 0) = 0"
    unfolding sample_variance_def m2 by (simp add: sum_list_replicate)
qed

theorem two_mean_interval_witness:
  "length (replicate 99 0 @ [100 :: real]) = 100 \<and> length (replicate 100 (0 :: real)) = 100
   \<and> sample_variance (replicate 99 0 @ [100]) \<noteq> sample_variance (replicate 100 0)
   \<and> (\<forall>t_ppf. twoMeanDifferenceInterval t_ppf (replicate 99 0 @ [100]) (replicate 100 0) =
         (Finite (1 - t_ppf 0.975 198), Finite (1 + t_ppf 0.975 198)))
   \<and> welch_satterthwaite_df (sample_variance (replicate 99 0 @ [100])) 100
         (sample_variance (replicate 100 0)) 100 \<noteq> 198"
proof -
  have h: "length (replicate 99 0 @ [100 :: real]) = 100" "length (replicate 100 (0 :: real)) = 100"
    by simp_all
  have ne: "sample_variance (replicate 99 0 @ [100]) \<noteq> sample_variance (replicate 100 0)"
    by (simp add: mean_two_mean_example)
  have "twoMeanDifferenceInterval t_ppf (replicate 99 0 @ [100]) (replicate 100 0) =
      (Finite (1 - t_ppf 0.975 198), Finite (1 + t_ppf 0.975 198))
    \<and> welch_satterthwaite_df (sample_variance (replicate 99 0 @ [100])) 100
         (sample_variance (replicate 100 0)) 100 \<noteq> 198" for t_ppf
    using two_mean_interval[OF h, of t_ppf] ne
    by (simp add: mean_two_mean_example)
  then show ?thesis using h ne by blast
qed

text \<open>
  Claim C7 as stated (every pair of samples with \<open>nA \<ge> 2\<close> and \<open>nB \<ge> 2\<close>) fails: the
  divisor \<open>100\<close> and the degrees of freedom \<open>198\<close> are literals of the code. For the samples
  \<open>[0, 2]\<close> and \<open>198\<close> zeros, where \<open>nA + nB - 2\<close> is \<open>198\<close> too, the code's standard error is
  \<open>sqrt (1/50)\<close> and the claimed one is \<open>1\<close>: whatever function computes the Student-t
  quantile, the interval of the code is the claimed interval only if the critical value is
  \<open>0\<close>.
\<close>

theorem two_mean_interval_other_sizes:
  "(\<forall>t_ppf. twoMeanDifferenceInterval t_ppf [0, 2] (replicate 198 0) =
       (Finite (1 - t_ppf 0.975 198 * sqrt (1 / 50)),
        Finite (1 + t_ppf 0.975 198 * sqrt (1 / 50))))
   \<and> mean [0, 2] - mean (replicate 198 0) = 1
   \<and> real (length [0, 2 :: real]) + real (length (replicate 198 (0 :: real))) - 2 = 198
   \<and> sqrt (sample_variance [0, 2] / real (length [0, 2 :: real])
           + sample_variance (replicate 198 0) / real (length (replicate 198 (0 :: real)))) = 1
   \<and> sqrt (1 / 50) \<noteq> (1 :: real)
   \<and> (\<forall>t_ppf.
        (twoMeanDifferenceInterval t_ppf [0, 2] (replicate 198 0) =
           (Finite ((mean [0, 2] - mean (replicate 198 0))
              - t_ppf (1 - (1 - 0.95) / 2)
                  (real (length [0, 2 :: real]) + real (length (replicate 198 (0 :: real))) - 2)
                * sqrt (sample_variance [0, 2] / real (length [0, 2 :: real])
                    + sample_variance (replicate 198 0)
                      / real (length (replicate 198 (0 :: real))))),
            Finite ((mean [0, 2] - mean (replicate 198 0))
              + t_ppf (1 - (1 - 0.95) / 2)
                  (real (length [0, 2 :: real]) + real (length (replicate 198 (0 :: real))) - 2)
                * sqrt (sample_variance [0, 2] / real (length [0, 2 :: real])
                    + sample_variance (replicate 198 0)
                      / real (length (replicate 198 (0 :: real)))))))
        \<longleftrightarrow> t_ppf 0.975 198 = 0)"
proof -
  have m1: "mean [0, 2] = 1" by (simp add: mean_def)
  have m2: "mean (replicate 198 0) = 0" by (simp add: mean_def sum_list_replicate)
  have v1: "sample_variance [0, 2] = 2" unfolding sample_variance_def m1 by simp
  have v2: "sample_variance (replicate 198 0) = 0"
    unfolding sample_variance_def m2 by (simp add: sum_list_replicate)
  have lv: "(1::real) - (1 - 0.95) / 2 = 0.975" by simp
  have len: "2 \<le> length [0, 2 :: real]" "2 \<le> length (replicate 198 (0 :: real))" by simp_all
  have s: "sqrt (1 / 50) \<noteq> (1::real)" by simp
  have run: "twoMeanDifferenceInterval t_ppf [0, 2] (replicate 198 0) =
      (Finite (1 - t_ppf 0.975 198 * sqrt (1 / 50)), Finite (1 + t_ppf 0.975 198 * sqrt (1 / 50)))"
    for t_ppf
    unfolding twoMeanDifferenceInterval_finite[OF len] m1 m2 v1 v2 by simp
  have se: "sqrt (sample_variance [0, 2] / real (length [0, 2 :: real])
           + sample_variance (replicate 198 0) / real (length (replicate 198 (0 :: real)))) = 1"
    unfolding v1 v2 by simp
  have df: "real (length [0, 2 :: real]) + real (length (replicate 198 (0 :: real))) - 2 = 198"
    by simp
  have "(twoMeanDifferenceInterval t_ppf [0, 2] (replicate 198 0) =
           (Finite ((mean [0, 2] - mean (replicate 198 0))
              - t_ppf (1 - (1 - 0.95) / 2)
                  (real (length [0, 2 :: real]) + real (length (replicate 198 (0 :: real))) - 2)
                * sqrt (sample_variance [0, 2] / real (length [0, 2 :: real])
                    + sample_variance (replicate 198 0)
                      / real (length (replicate 198 (0 :: real))))),
            Finite ((mean [0, 2] - mean (replicate 198 0))
              + t_ppf (1 - (1 - 0.95) / 2)
                  (real (length [0, 2 :: real]) + real (length (replicate 198 (0 :: real))) - 2)
                * sqrt (sample_variance [0, 2] / real (length [0, 2 :: real])
                    + sample_variance (replicate 198 0)
                      / real (length (replicate 198 (0 :: real)))))))
        \<longleftrightarrow> t_ppf 0.975 198 = 0" for t_ppf
  proof -
    have "t_ppf 0.975 198 * sqrt (1 / 50) = t_ppf 0.975 198 \<longleftrightarrow> t_ppf 0.975 198 = 0"
      using s by auto
    then show ?thesis
      unfolding run se df m1 m2 lv by auto
  qed
  then show ?thesis
    using run se df s m1 m2 by simp
qed

text \<open>
  The Z interval: for a non-empty sample it is \<open>mean \<plusminus> z * sigma / sqrt n\<close> with \<open>z\<close> the
  standard normal quantile of level \<open>0.975\<close>, which is \<open>1.959964\<close> to six decimals; for
  \<open>n = 100\<close> and \<open>sigma = 10\<close> the half-width is \<open>z\<close> itself.
\<close>

lemma meanIntervalKnownVariance_finite:
  assumes "data \<noteq> []"
  shows "meanIntervalKnownVariance data sigma =
    (Finite (mean data - norm_quantile 0.975 * (sigma / sqrt (real (length data)))),
     Finite (mean data + norm_quantile 0.975 * (sigma / sqrt (real (length data)))))"
  using assms
  by (simp add: meanIntervalKnownVariance_def Let_def np_mean_Finite norm_ppf_def np_sub_def)

lemma meanIntervalKnownVariance_reference_width:
  assumes "length data = 100"
  shows "\<exists>z. meanIntervalKnownVariance data 10 = (Finite (mean data - z), Finite (mean data + z))
    \<and> 1.9599635 \<le> z \<and> z \<le> 1.9599645"
proof -
  have "data \<noteq> []" using assms by auto
  moreover have "sqrt (real (length data)) = 10"
    unfolding assms using real_sqrt_abs[of 10] by simp
  ultimately have "meanIntervalKnownVariance data 10 =
      (Finite (mean data - norm_quantile 0.975), Finite (mean data + norm_quantile 0.975))"
    by (simp add: meanIntervalKnownVariance_finite)
  then show ?thesis
    using norm_quantile_0975(2,3) by blast
qed

section \<open>Chi-square statistic: results\<close>

text \<open>
  Claim C8. For observed and expected sequences of equal length: if some expected entry is
  \<open>0\<close> the operation fails with \<open>DivisionByZeroError\<close>, and otherwise it returns the sum of
  \<open>(O - E)^2 / E\<close> over the pairs.
\<close>

theorem chi_square_zero_expected:
  assumes "length observed = length expected"
  shows "(0 \<in> set expected \<longrightarrow>
           chiSquareTest observed expected alpha = Inl DivisionByZeroError)
    \<and> (0 \<notin> set expected \<longrightarrow>
           chiSquareTest observed expected alpha =
             Inr (\<Sum>(ob, ex)\<leftarrow>zip observed expected. (ob - ex)\<^sup>2 / ex))"
  using assms by (simp add: chiSquareTest_def)

theorem chi_square_zero_expected_witness:
  "length [10, 20 :: real] = length [15, 0 :: real] \<and> 0 \<in> set [15, 0 :: real]
   \<and> chiSquareTest [10, 20] [15, 0] 0.05 = Inl DivisionByZeroError
   \<and> length [10, 20 :: real] = length [15, 15 :: real] \<and> 0 \<notin> set [15, 15 :: real]
   \<and> chiSquareTest [10, 20] [15, 15] 0.05 = Inr (10 / 3)"
  using chi_square_zero_expected[of "[10, 20]" "[15, 0]" "0.05"]
    chi_square_zero_expected[of "[10, 20]" "[15, 15]" "0.05"]
  by simp

end
